theory Spec2Isabelle
  imports Main
begin

section \<open>earedis: a logging facade over a redis client\<close>

text \<open>
  The package wraps a go-redis client. Everything the wrapped client, the logger and
  \<^verbatim>\<open>encoding/json\<close> do is outside the repository, so it is a parameter of the model:
  the replies of the store come from a record of reply functions over an abstract store
  state, and the decoder is a function argument. What the package itself does (which
  command it issues, which branch it takes on a reply, what it logs, what it returns) is
  translated from \<^verbatim>\<open>main.go\<close> function by function.
\<close>

subsection \<open>Data\<close>

text \<open>\<^verbatim>\<open>time.Duration\<close> counts nanoseconds; \<^verbatim>\<open>time.Second\<close> is 10^9 of them.\<close>

type_synonym Duration = int

definition Second :: Duration where
  "Second = 1000000000"

text \<open>\<^verbatim>\<open>ConnectConfig\<close>: the pointer field \<^verbatim>\<open>pingConnectionTTL\<close> is an option, nil being \<open>None\<close>.\<close>

record ConnectConfig =
  Addr :: string
  User :: string
  Password :: string
  DB :: int
  pingConnectionTTL :: "Duration option"

text \<open>The four fields of \<^verbatim>\<open>rdb.Options\<close> that \<^verbatim>\<open>Init\<close> fills in. A client is identified
  by the options it was made from.\<close>

record Options =
  OptAddr :: string
  Username :: string
  OptPassword :: string
  OptDB :: int

text \<open>\<^verbatim>\<open>Service\<close>: \<^verbatim>\<open>client\<close> is nil (\<open>None\<close>) until \<^verbatim>\<open>Init\<close> has run. The logger field
  \<^verbatim>\<open>l\<close> has no counterpart: what is logged through it is collected in the world below.\<close>

record Service =
  c :: ConnectConfig
  client :: "Options option"
  traceName :: string

text \<open>The arguments handed to the logger, and the two logger calls the package makes.\<close>

datatype 'e LogArg = Str string | Err "'e option"

datatype 'e LogEntry = InfoT string "'e LogArg list" | ErrorT string "'e LogArg list"

text \<open>The commands the package sends through the client.\<close>

datatype Cmd = PING Options Duration | GET string | SMEMBERS string

text \<open>The world a call runs in: the state of the store behind the client, the commands
  sent so far and the log entries written so far, both oldest first.\<close>

record ('s, 'e) World =
  store :: 's
  sent :: "Cmd list"
  logged :: "'e LogEntry list"

text \<open>
  The wrapped client. Each field is what \<^verbatim>\<open>.Result()\<close> or \<^verbatim>\<open>.Err()\<close> of the command
  gives: the value and the error (nil being \<open>None\<close>), together with the store's next
  state. \<open>'x\<close> is the caller's context (deadline, cancellation); the probe of \<^verbatim>\<open>Init\<close>
  runs under a background context with the given timeout.
\<close>

record ('s, 'x, 'e) Redis =
  PingR :: "Options \<Rightarrow> Duration \<Rightarrow> 's \<Rightarrow> 'e option \<times> 's"
  GetR :: "Options \<Rightarrow> 'x \<Rightarrow> string \<Rightarrow> 's \<Rightarrow> (string \<times> 'e option) \<times> 's"
  SMembersR :: "Options \<Rightarrow> 'x \<Rightarrow> string \<Rightarrow> 's \<Rightarrow> (string list \<times> 'e option) \<times> 's"

text \<open>A call either returns (a value and the world after it) or panics, as a method
  call through a nil pointer does.\<close>

datatype 'a outcome = Done 'a | Panic

subsection \<open>Logger and client calls\<close>

definition logInfoT :: "string \<Rightarrow> 'e LogArg list \<Rightarrow> ('s, 'e) World \<Rightarrow> ('s, 'e) World" where
  "logInfoT tn args w = w\<lparr>logged := logged w @ [InfoT tn args]\<rparr>"

definition logErrorT :: "string \<Rightarrow> 'e LogArg list \<Rightarrow> ('s, 'e) World \<Rightarrow> ('s, 'e) World" where
  "logErrorT tn args w = w\<lparr>logged := logged w @ [ErrorT tn args]\<rparr>"

definition clientPing ::
  "('s, 'x, 'e) Redis \<Rightarrow> Options \<Rightarrow> Duration \<Rightarrow> ('s, 'e) World \<Rightarrow> 'e option \<times> ('s, 'e) World" where
  "clientPing R cl ttl w =
     (case PingR R cl ttl (store w) of
        (err, st) \<Rightarrow> (err, w\<lparr>store := st, sent := sent w @ [PING cl ttl]\<rparr>))"

definition clientGet ::
  "('s, 'x, 'e) Redis \<Rightarrow> Options \<Rightarrow> 'x \<Rightarrow> string \<Rightarrow> ('s, 'e) World
     \<Rightarrow> (string \<times> 'e option) \<times> ('s, 'e) World" where
  "clientGet R cl ctx key w =
     (case GetR R cl ctx key (store w) of
        (reply, st) \<Rightarrow> (reply, w\<lparr>store := st, sent := sent w @ [GET key]\<rparr>))"

definition clientSMembers ::
  "('s, 'x, 'e) Redis \<Rightarrow> Options \<Rightarrow> 'x \<Rightarrow> string \<Rightarrow> ('s, 'e) World
     \<Rightarrow> (string list \<times> 'e option) \<times> ('s, 'e) World" where
  "clientSMembers R cl ctx key w =
     (case SMembersR R cl ctx key (store w) of
        (reply, st) \<Rightarrow> (reply, w\<lparr>store := st, sent := sent w @ [SMEMBERS key]\<rparr>))"

subsection \<open>NewService and Init\<close>

text \<open>\<^verbatim>\<open>NewService\<close> writes the default through the config pointer and returns a service
  whose client is still nil; the trace name is \<^verbatim>\<open>fmt.Sprintf("[%s_RedisService]", traceName)\<close>.\<close>

definition NewService :: "ConnectConfig \<Rightarrow> string \<Rightarrow> Service" where
  "NewService cfg tn =
     (let cfg1 = (if pingConnectionTTL cfg = None
                  then cfg\<lparr>pingConnectionTTL := Some (30 * Second)\<rparr>
                  else cfg)
      in \<lparr>c = cfg1, client = None, traceName = ''['' @ tn @ ''_RedisService]''\<rparr>)"

definition optionsOf :: "ConnectConfig \<Rightarrow> Options" where
  "optionsOf cfg =
     \<lparr>OptAddr = Addr cfg, Username = User cfg, OptPassword = Password cfg, OptDB = DB cfg\<rparr>"

text \<open>\<^verbatim>\<open>Init\<close> stores the new client in the service, dereferences the probe timeout (a
  panic when it is nil) and pings. It returns the service as updated and the error.\<close>

definition Init ::
  "('s, 'x, 'e) Redis \<Rightarrow> Service \<Rightarrow> ('s, 'e) World
     \<Rightarrow> ((Service \<times> 'e option) \<times> ('s, 'e) World) outcome" where
  "Init R s w =
     (let cl = optionsOf (c s);
          s1 = s\<lparr>client := Some cl\<rparr>
      in case pingConnectionTTL (c s1) of
           None \<Rightarrow> Panic
         | Some ttl \<Rightarrow>
             (case clientPing R cl ttl w of
                (Some err, w1) \<Rightarrow>
                  Done ((s1, Some err),
                        logErrorT (traceName s1) [Str ''Failed to connect to redis'', Err (Some err)] w1)
              | (None, w1) \<Rightarrow>
                  Done ((s1, None),
                        logInfoT (traceName s1) [Str ''Successfully connected to redis''] w1)))"

subsection \<open>Get and JSONGet\<close>

definition Get ::
  "('s, 'x, 'e) Redis \<Rightarrow> Service \<Rightarrow> 'x \<Rightarrow> string \<Rightarrow> ('s, 'e) World
     \<Rightarrow> ((string \<times> 'e option) \<times> ('s, 'e) World) outcome" where
  "Get R s ctx key w =
     (case client s of
        None \<Rightarrow> Panic
      | Some cl \<Rightarrow>
          (case clientGet R cl ctx key w of
             ((result, err), w1) \<Rightarrow>
               if err \<noteq> None \<or> length result = 0
               then Done (('''', err),
                          logErrorT (traceName s) [Str ''Failed to get key'', Str key, Err err] w1)
               else Done ((result, None), w1)))"

text \<open>\<^verbatim>\<open>JSONGet\<close> decodes into the caller's value \<open>v\<close>; \<open>Unmarshal\<close> is
  \<^verbatim>\<open>json.Unmarshal\<close> at the type of \<open>v\<close>: from the payload and the value before, the
  value after and the error.\<close>

definition JSONGet ::
  "(string \<Rightarrow> 'a \<Rightarrow> 'a \<times> 'e option) \<Rightarrow> ('s, 'x, 'e) Redis \<Rightarrow> Service \<Rightarrow> 'x \<Rightarrow> string \<Rightarrow> 'a
     \<Rightarrow> ('s, 'e) World \<Rightarrow> (('a \<times> 'e option) \<times> ('s, 'e) World) outcome" where
  "JSONGet Unmarshal R s ctx key v w =
     (case client s of
        None \<Rightarrow> Panic
      | Some cl \<Rightarrow>
          (case clientGet R cl ctx key w of
             ((result, err), w1) \<Rightarrow>
               if err \<noteq> None \<or> length result = 0
               then Done ((v, err),
                          logErrorT (traceName s) [Str ''Failed to get key'', Str key, Err err] w1)
               else (case Unmarshal result v of
                       (v1, Some err1) \<Rightarrow> Done ((v1, Some err1), w1)
                     | (v1, None) \<Rightarrow> Done ((v1, None), w1))))"

subsection \<open>SMembersWithChild\<close>

text \<open>The loop over the members: \<open>result\<close> is the slice built so far.\<close>

fun resolveMembers ::
  "('s, 'x, 'e) Redis \<Rightarrow> Service \<Rightarrow> 'x \<Rightarrow> string list \<Rightarrow> string list \<Rightarrow> ('s, 'e) World
     \<Rightarrow> (string list \<times> ('s, 'e) World) outcome" where
  "resolveMembers R s ctx [] result w = Done (result, w)"
| "resolveMembers R s ctx (member # members) result w =
     (case Get R s ctx member w of
        Panic \<Rightarrow> Panic
      | Done ((v, err), w1) \<Rightarrow>
          if err \<noteq> None \<or> length v = 0
          then resolveMembers R s ctx members result
                 (logErrorT (traceName s) [Str ''Failed to get member'', Str member, Err err] w1)
          else resolveMembers R s ctx members (result @ [v]) w1)"

text \<open>The result slice is an option: \<open>None\<close> is the nil slice of the error return,
  \<open>Some []\<close> the empty slice made by \<^verbatim>\<open>make([]string, 0)\<close>.\<close>

definition SMembersWithChild ::
  "('s, 'x, 'e) Redis \<Rightarrow> Service \<Rightarrow> 'x \<Rightarrow> string \<Rightarrow> ('s, 'e) World
     \<Rightarrow> ((string list option \<times> 'e option) \<times> ('s, 'e) World) outcome" where
  "SMembersWithChild R s ctx key w =
     (let w0 = logInfoT (traceName s) [Str ''Get members child by key '', Str key] w
      in case client s of
           None \<Rightarrow> Panic
         | Some cl \<Rightarrow>
             (case clientSMembers R cl ctx key w0 of
                ((members, Some err), w1) \<Rightarrow>
                  Done ((None, Some err),
                        logErrorT (traceName s)
                          [Str ''Failed to set members at key'', Str key, Err (Some err)] w1)
              | ((members, None), w1) \<Rightarrow>
                  (case resolveMembers R s ctx members [] w1 of
                     Panic \<Rightarrow> Panic
                   | Done (result, w2) \<Rightarrow> Done ((Some result, None), w2))))"

subsection \<open>JSONSMembersWithChild\<close>

text \<open>The loop over the raw values: \<open>sliceValue\<close> is the caller's slice, \<open>zero\<close> the
  zero value of its element type that \<^verbatim>\<open>reflect.New(elemType).Elem()\<close> makes, and
  \<open>Unmarshal\<close> is \<^verbatim>\<open>json.Unmarshal\<close> at the element type.\<close>

fun decodeItems ::
  "'a \<Rightarrow> (string \<Rightarrow> 'a \<Rightarrow> 'a \<times> 'e option) \<Rightarrow> string list \<Rightarrow> 'a list \<Rightarrow> 'a list \<times> 'e option" where
  "decodeItems zero Unmarshal [] sliceValue = (sliceValue, None)"
| "decodeItems zero Unmarshal (item # items) sliceValue =
     (case Unmarshal item zero of
        (newElem, Some err) \<Rightarrow> (sliceValue, Some err)
      | (newElem, None) \<Rightarrow> decodeItems zero Unmarshal items (sliceValue @ [newElem]))"

text \<open>\<open>v\<close> is the slice behind the caller's pointer; the call returns it as it is
  afterwards, with the error. Ranging over a nil slice runs no iteration.\<close>

definition JSONSMembersWithChild ::
  "'a \<Rightarrow> (string \<Rightarrow> 'a \<Rightarrow> 'a \<times> 'e option) \<Rightarrow> ('s, 'x, 'e) Redis \<Rightarrow> Service \<Rightarrow> 'x \<Rightarrow> string
     \<Rightarrow> 'a list \<Rightarrow> ('s, 'e) World \<Rightarrow> (('a list \<times> 'e option) \<times> ('s, 'e) World) outcome" where
  "JSONSMembersWithChild zero Unmarshal R s ctx key v w =
     (case SMembersWithChild R s ctx key w of
        Panic \<Rightarrow> Panic
      | Done ((result, Some err), w1) \<Rightarrow>
          Done ((v, Some err),
                logErrorT (traceName s)
                  [Str ''Failed to set members at key'', Str key, Err (Some err)] w1)
      | Done ((result, None), w1) \<Rightarrow>
          Done (decodeItems zero Unmarshal (case result of None \<Rightarrow> [] | Some items \<Rightarrow> items) v, w1))"

subsection \<open>What the store answers to the gets of a member list\<close>

text \<open>
  These two definitions are not code of the package: they name what the statements below
  compare the result of \<^verbatim>\<open>SMembersWithChild\<close> with. \<open>getReplies\<close> is the list of answers
  the client gives when the members are fetched with \<^verbatim>\<open>GET\<close> one after the other from store
  state \<open>st\<close>, the i-th answer belonging to the i-th member. A reply is \<open>resolved\<close> when it
  carries no error and a non-empty value.
\<close>

definition resolved :: "string \<times> 'e option \<Rightarrow> bool" where
  "resolved reply = (snd reply = None \<and> fst reply \<noteq> [])"

fun getReplies ::
  "('s, 'x, 'e) Redis \<Rightarrow> Options \<Rightarrow> 'x \<Rightarrow> string list \<Rightarrow> 's \<Rightarrow> (string \<times> 'e option) list" where
  "getReplies R cl ctx [] st = []"
| "getReplies R cl ctx (m # ms) st =
     (case GetR R cl ctx m st of (reply, st1) \<Rightarrow> reply # getReplies R cl ctx ms st1)"

subsection \<open>A sample store\<close>

text \<open>
  A small store for the closed instances: three index sets over four keys, one index
  whose lookup fails, a key holding the empty string (\<open>o:2\<close>) and a key holding a payload
  that does not decode (\<open>o:4\<close>). Its state counts the commands served. The sample decoder
  reads the payloads \<open>1\<close> and \<open>3\<close> as numbers and rejects everything else.
\<close>

definition mockRedis :: "(nat, unit, string) Redis" where
  "mockRedis =
     \<lparr>PingR = (\<lambda>cl ttl st.
         (if OptAddr cl = ''localhost:6379'' then None else Some ''connection refused'', Suc st)),
      GetR = (\<lambda>cl ctx key st.
         (if key = ''o:1'' then (''1'', None)
          else if key = ''o:2'' then ('''', None)
          else if key = ''o:3'' then (''3'', None)
          else if key = ''o:4'' then (''x'', None)
          else ('''', Some ''redis: nil''), Suc st)),
      SMembersR = (\<lambda>cl ctx key st.
         (if key = ''idx:orders'' then ([''o:1'', ''o:2'', ''o:3''], None)
          else if key = ''idx:paid'' then ([''o:3'', ''o:1''], None)
          else if key = ''idx:bad'' then ([''o:1'', ''o:4'', ''o:3''], None)
          else if key = ''idx:down'' then ([], Some ''EOF'')
          else ([], None), Suc st))\<rparr>"

definition mockUnmarshal :: "string \<Rightarrow> nat \<Rightarrow> nat \<times> string option" where
  "mockUnmarshal item v =
     (if item = ''1'' then (1, None)
      else if item = ''3'' then (3, None)
      else (v, Some ''invalid character''))"

definition mockConfig :: ConnectConfig where
  "mockConfig =
     \<lparr>Addr = ''localhost:6379'', User = ''default'', Password = '''', DB = 0,
      pingConnectionTTL = None\<rparr>"

definition mockService :: Service where
  "mockService = (NewService mockConfig ''cache'')\<lparr>client := Some (optionsOf mockConfig)\<rparr>"

definition mockWorld :: "(nat, string) World" where
  "mockWorld = \<lparr>store = 0, sent = [], logged = []\<rparr>"

section \<open>Properties\<close>

lemmas mock_defs = mockRedis_def mockService_def mockWorld_def mockConfig_def mockUnmarshal_def
  NewService_def optionsOf_def Second_def

lemmas run_defs = SMembersWithChild_def JSONSMembersWithChild_def Get_def JSONGet_def Init_def
  clientGet_def clientSMembers_def clientPing_def logInfoT_def logErrorT_def resolved_def

subsection \<open>The member loop\<close>

text \<open>One \<^verbatim>\<open>Get\<close> on a service with a client: the value comes back when the reply is
  resolved, and otherwise the empty string with the reply's error and one log entry.\<close>

lemma Get_unfold:
  assumes "client s = Some cl" and "GetR R cl ctx key (store w) = ((v, err), st)"
  shows "Get R s ctx key w =
           (if resolved (v, err)
            then Done ((v, None), w\<lparr>store := st, sent := sent w @ [GET key]\<rparr>)
            else Done (('''', err),
                   logErrorT (traceName s) [Str ''Failed to get key'', Str key, Err err]
                     (w\<lparr>store := st, sent := sent w @ [GET key]\<rparr>)))"
  using assms by (auto simp: Get_def clientGet_def resolved_def)

text \<open>The loop never panics on a service with a client, appends the values of the resolved
  replies to what it was given, and sends one \<^verbatim>\<open>GET\<close> per member.\<close>

lemma resolveMembers_result:
  assumes "client s = Some cl"
  shows "\<exists>w'. resolveMembers R s ctx ms acc w =
            Done (acc @ map fst (filter resolved (getReplies R cl ctx ms (store w))), w')
          \<and> sent w' = sent w @ map GET ms"
proof (induction ms arbitrary: acc w)
  case Nil
  show ?case by simp
next
  case (Cons m ms)
  obtain v err st where r: "GetR R cl ctx m (store w) = ((v, err), st)"
    by (metis surj_pair)
  show ?case
  proof (cases "resolved (v, err)")
    case True
    let ?w1 = "w\<lparr>store := st, sent := sent w @ [GET m]\<rparr>"
    from Cons.IH [of "acc @ [v]" ?w1] obtain w' where
      "resolveMembers R s ctx ms (acc @ [v]) ?w1 =
         Done ((acc @ [v]) @ map fst (filter resolved (getReplies R cl ctx ms (store ?w1))), w')"
      "sent w' = sent ?w1 @ map GET ms" by blast
    moreover from True have "err = None" "v \<noteq> []"
      by (simp_all add: resolved_def)
    ultimately show ?thesis
      using True r by (simp add: Get_unfold [OF assms r])
  next
    case False
    let ?w1 = "logErrorT (traceName s) [Str ''Failed to get member'', Str m, Err err]
                 (logErrorT (traceName s) [Str ''Failed to get key'', Str m, Err err]
                    (w\<lparr>store := st, sent := sent w @ [GET m]\<rparr>))"
    from Cons.IH [of acc ?w1] obtain w' where
      "resolveMembers R s ctx ms acc ?w1 =
         Done (acc @ map fst (filter resolved (getReplies R cl ctx ms (store ?w1))), w')"
      "sent w' = sent ?w1 @ map GET ms" by blast
    moreover from False have "err \<noteq> None \<or> length ('''' :: string) = 0"
      by simp
    ultimately show ?thesis
      using False r by (simp add: Get_unfold [OF assms r] logErrorT_def)
  qed
qed

lemma length_getReplies: "length (getReplies R cl ctx ms st) = length ms"
  by (induction ms arbitrary: st) (auto split: prod.splits)

lemma SMembersWithChild_ok:
  assumes "client s = Some cl"
    and "SMembersR R cl ctx key (store w) = ((members, None), st)"
  shows "\<exists>w'. SMembersWithChild R s ctx key w =
            Done ((Some (map fst (filter resolved (getReplies R cl ctx members st))), None), w')
          \<and> sent w' = sent w @ SMEMBERS key # map GET members"
proof -
  let ?w1 = "(logInfoT (traceName s) [Str ''Get members child by key '', Str key] w)
               \<lparr>store := st,
                sent := sent (logInfoT (traceName s) [Str ''Get members child by key '', Str key] w)
                          @ [SMEMBERS key]\<rparr>"
  obtain w' where
    "resolveMembers R s ctx members [] ?w1 =
       Done ([] @ map fst (filter resolved (getReplies R cl ctx members (store ?w1))), w')"
    "sent w' = sent ?w1 @ map GET members"
    using resolveMembers_result [OF assms(1), of R ctx members "[]" ?w1] by blast
  with assms show ?thesis
    by (simp add: SMembersWithChild_def clientSMembers_def logInfoT_def)
qed

subsection \<open>The decode loop\<close>

lemma decodeItems_first_failure:
  assumes "k < length raw"
    and "\<forall>i<k. snd (Unmarshal (raw ! i) zero) = None"
    and "snd (Unmarshal (raw ! k) zero) = Some err"
  shows "decodeItems zero Unmarshal raw v =
           (v @ map (\<lambda>item. fst (Unmarshal item zero)) (take k raw), Some err)"
  using assms
proof (induction raw arbitrary: k v)
  case Nil
  then show ?case by simp
next
  case (Cons item items)
  obtain x e where u: "Unmarshal item zero = (x, e)"
    by (cases "Unmarshal item zero")
  show ?case
  proof (cases k)
    case 0
    with Cons.prems u show ?thesis by simp
  next
    case (Suc j)
    with Cons.prems u have ok: "e = None" by auto
    from Suc Cons.prems have "j < length items"
      "\<forall>i<j. snd (Unmarshal (items ! i) zero) = None"
      "snd (Unmarshal (items ! j) zero) = Some err" by auto
    then have "decodeItems zero Unmarshal items (v @ [x]) =
                 ((v @ [x]) @ map (\<lambda>item. fst (Unmarshal item zero)) (take j items), Some err)"
      by (rule Cons.IH)
    with ok u Suc show ?thesis by simp
  qed
qed

lemma decodeItems_appends:
  "decodeItems zero Unmarshal raw v =
     (v @ map (\<lambda>item. fst (Unmarshal item zero))
            (takeWhile (\<lambda>item. snd (Unmarshal item zero) = None) raw),
      (case dropWhile (\<lambda>item. snd (Unmarshal item zero) = None) raw of
         [] \<Rightarrow> None
       | item # items \<Rightarrow> snd (Unmarshal item zero)))"
  by (induction raw arbitrary: v) (auto split: prod.splits option.splits)

subsection \<open>SMembersWithChild\<close>

text \<open>
  C1. For every reference key: when the set-membership query at that key fails,
  \<^verbatim>\<open>SMembersWithChild\<close> returns the nil slice together with that error. No member is
  resolved: the only command sent is the \<^verbatim>\<open>SMEMBERS\<close>, the store is left as that command
  left it, and the log gains the opening entry and the failure entry.
\<close>

theorem SMembersWithChild_index_error:
  assumes "client s = Some cl"
    and "SMembersR R cl ctx key (store w) = ((members, Some err), st)"
  shows "SMembersWithChild R s ctx key w =
           Done ((None, Some err),
                 w\<lparr>store := st,
                   sent := sent w @ [SMEMBERS key],
                   logged := logged w @
                     [InfoT (traceName s) [Str ''Get members child by key '', Str key],
                      ErrorT (traceName s)
                        [Str ''Failed to set members at key'', Str key, Err (Some err)]]\<rparr>)"
  using assms
  by (simp add: SMembersWithChild_def clientSMembers_def logInfoT_def logErrorT_def)

theorem SMembersWithChild_index_error_witness:
  "SMembersWithChild mockRedis mockService () ''idx:down'' mockWorld =
     Done ((None, Some ''EOF''),
           \<lparr>store = 1, sent = [SMEMBERS ''idx:down''],
            logged =
              [InfoT ''[cache_RedisService]'' [Str ''Get members child by key '', Str ''idx:down''],
               ErrorT ''[cache_RedisService]''
                 [Str ''Failed to set members at key'', Str ''idx:down'', Err (Some ''EOF'')]]\<rparr>)"
  using SMembersWithChild_index_error
    [of mockService "optionsOf mockConfig" mockRedis "()" "''idx:down''" mockWorld "[]" "''EOF''" 1]
  by (simp add: mock_defs)

text \<open>
  C2. For every reference key whose set-membership query succeeds, \<^verbatim>\<open>SMembersWithChild\<close>
  returns a non-nil slice and a nil error, whatever the gets answer. The slice holds the
  values of the resolved replies only: a member whose get fails or gives the empty string
  contributes nothing, and when no member resolves the slice is empty. Every member is
  fetched once, in order, after the \<^verbatim>\<open>SMEMBERS\<close>.
\<close>

theorem SMembersWithChild_skips_unresolved:
  assumes "client s = Some cl"
    and "SMembersR R cl ctx key (store w) = ((members, None), st)"
  shows "\<exists>r w'. SMembersWithChild R s ctx key w = Done ((Some r, None), w')
           \<and> r = map fst (filter resolved (getReplies R cl ctx members st))
           \<and> (list_all (\<lambda>reply. \<not> resolved reply) (getReplies R cl ctx members st) \<longrightarrow> r = [])
           \<and> sent w' = sent w @ SMEMBERS key # map GET members"
  using SMembersWithChild_ok [OF assms] by (auto simp: list_all_iff)

theorem SMembersWithChild_skips_unresolved_witness:
  "\<exists>w'. SMembersWithChild mockRedis mockService () ''idx:orders'' mockWorld =
          Done ((Some [''1'', ''3''], None), w')
        \<and> sent w' = [SMEMBERS ''idx:orders'', GET ''o:1'', GET ''o:2'', GET ''o:3'']"
  using SMembersWithChild_skips_unresolved
    [of mockService "optionsOf mockConfig" mockRedis "()" "''idx:orders''" mockWorld
        "[''o:1'', ''o:2'', ''o:3'']" 1]
  by (simp add: mock_defs resolved_def)

text \<open>
  C3. For every reference key whose set-membership query succeeds with \<open>members\<close>: what
  \<^verbatim>\<open>SMembersWithChild\<close> returns is the list of the values of the resolved replies, in the
  order of the replies, that is of the members. When every member resolves, it is the
  list of all the replies' values: as long as \<open>members\<close>, the i-th value being that of the
  i-th member.
\<close>

theorem SMembersWithChild_member_order:
  assumes "client s = Some cl"
    and "SMembersR R cl ctx key (store w) = ((members, None), st)"
    and "SMembersWithChild R s ctx key w = Done ((result, err), w')"
  shows "result = Some (map fst (filter resolved (getReplies R cl ctx members st)))
         \<and> (list_all resolved (getReplies R cl ctx members st) \<longrightarrow>
              result = Some (map fst (getReplies R cl ctx members st))
              \<and> length (the result) = length members)"
  using SMembersWithChild_ok [OF assms(1,2)] assms(3)
  by (auto simp: list_all_iff length_getReplies)

theorem SMembersWithChild_member_order_witness:
  "list_all resolved (getReplies mockRedis (optionsOf mockConfig) () [''o:3'', ''o:1''] 1)
   \<and> map fst (getReplies mockRedis (optionsOf mockConfig) () [''o:3'', ''o:1''] 1) = [''3'', ''1'']
   \<and> SMembersWithChild mockRedis mockService () ''idx:paid'' mockWorld =
       Done ((Some [''3'', ''1''], None),
             \<lparr>store = 3, sent = [SMEMBERS ''idx:paid'', GET ''o:3'', GET ''o:1''],
              logged =
                [InfoT ''[cache_RedisService]''
                   [Str ''Get members child by key '', Str ''idx:paid'']]\<rparr>)"
  using SMembersWithChild_member_order
    [of mockService "optionsOf mockConfig" mockRedis "()" "''idx:paid''" mockWorld
        "[''o:3'', ''o:1'']" 1 "Some [''3'', ''1'']" None
        "\<lparr>store = 3, sent = [SMEMBERS ''idx:paid'', GET ''o:3'', GET ''o:1''],
          logged =
            [InfoT ''[cache_RedisService]''
               [Str ''Get members child by key '', Str ''idx:paid'']]\<rparr>"]
  by (simp add: mock_defs run_defs)

text \<open>
  C6. For every reference key whose set-membership query succeeds with no member,
  \<^verbatim>\<open>SMembersWithChild\<close> returns the empty, non-nil slice and a nil error; only the
  \<^verbatim>\<open>SMEMBERS\<close> is sent and only the opening entry is logged.
\<close>

theorem SMembersWithChild_no_members:
  assumes "client s = Some cl"
    and "SMembersR R cl ctx key (store w) = (([], None), st)"
  shows "SMembersWithChild R s ctx key w =
           Done ((Some [], None),
                 w\<lparr>store := st,
                   sent := sent w @ [SMEMBERS key],
                   logged := logged w @
                     [InfoT (traceName s) [Str ''Get members child by key '', Str key]]\<rparr>)"
  using assms
  by (simp add: SMembersWithChild_def clientSMembers_def logInfoT_def)

theorem SMembersWithChild_no_members_witness:
  "SMembersWithChild mockRedis mockService () ''idx:none'' mockWorld =
     Done ((Some [], None),
           \<lparr>store = 1, sent = [SMEMBERS ''idx:none''],
            logged =
              [InfoT ''[cache_RedisService]'' [Str ''Get members child by key '', Str ''idx:none'']]\<rparr>)"
  using SMembersWithChild_no_members
    [of mockService "optionsOf mockConfig" mockRedis "()" "''idx:none''" mockWorld 1]
  by (simp add: mock_defs)

subsection \<open>JSONSMembersWithChild\<close>

text \<open>
  C4. When \<^verbatim>\<open>SMembersWithChild\<close> yields the raw values \<open>raw\<close> and the value at position \<open>k\<close>
  is the first that does not decode, \<^verbatim>\<open>JSONSMembersWithChild\<close> returns the error of that
  decode, and the caller's slice is what it was followed by the decoded values of the
  first \<open>k\<close> raw values, in order: for the initially empty slice, exactly those \<open>k\<close>
  elements. Nothing after position \<open>k\<close> is decoded or appended.
\<close>

theorem JSONSMembersWithChild_decode_error:
  assumes "SMembersWithChild R s ctx key w = Done ((Some raw, None), w1)"
    and "k < length raw"
    and "\<forall>i<k. snd (Unmarshal (raw ! i) zero) = None"
    and "snd (Unmarshal (raw ! k) zero) = Some err"
  shows "JSONSMembersWithChild zero Unmarshal R s ctx key v w =
           Done ((v @ map (\<lambda>item. fst (Unmarshal item zero)) (take k raw), Some err), w1)"
proof -
  have "decodeItems zero Unmarshal raw v =
          (v @ map (\<lambda>item. fst (Unmarshal item zero)) (take k raw), Some err)"
    using assms(2-4) by (rule decodeItems_first_failure)
  with assms(1) show ?thesis
    by (simp add: JSONSMembersWithChild_def)
qed

theorem JSONSMembersWithChild_decode_error_witness:
  "SMembersWithChild mockRedis mockService () ''idx:bad'' mockWorld =
     Done ((Some [''1'', ''x'', ''3''], None),
           \<lparr>store = 4, sent = [SMEMBERS ''idx:bad'', GET ''o:1'', GET ''o:4'', GET ''o:3''],
            logged =
              [InfoT ''[cache_RedisService]''
                 [Str ''Get members child by key '', Str ''idx:bad'']]\<rparr>)
   \<and> JSONSMembersWithChild 0 mockUnmarshal mockRedis mockService () ''idx:bad'' [] mockWorld =
       Done (([1], Some ''invalid character''),
             \<lparr>store = 4, sent = [SMEMBERS ''idx:bad'', GET ''o:1'', GET ''o:4'', GET ''o:3''],
              logged =
                [InfoT ''[cache_RedisService]''
                   [Str ''Get members child by key '', Str ''idx:bad'']]\<rparr>)"
  using JSONSMembersWithChild_decode_error
    [of mockRedis mockService "()" "''idx:bad''" mockWorld "[''1'', ''x'', ''3'']"
        "\<lparr>store = 4, sent = [SMEMBERS ''idx:bad'', GET ''o:1'', GET ''o:4'', GET ''o:3''],
          logged =
            [InfoT ''[cache_RedisService]''
               [Str ''Get members child by key '', Str ''idx:bad'']]\<rparr>"
        1 mockUnmarshal 0 "''invalid character''" "[]"]
  by (simp add: mock_defs run_defs)

text \<open>
  C9. When the inner \<^verbatim>\<open>SMembersWithChild\<close> returns an error, \<^verbatim>\<open>JSONSMembersWithChild\<close>
  returns that error and the caller's slice is exactly what it was; the outcome does not
  depend on the slice or on the decoder. The failure is logged once more.
\<close>

theorem JSONSMembersWithChild_index_error_frame:
  assumes "SMembersWithChild R s ctx key w = Done ((result, Some err), w1)"
  shows "JSONSMembersWithChild zero Unmarshal R s ctx key v w =
           Done ((v, Some err),
                 logErrorT (traceName s)
                   [Str ''Failed to set members at key'', Str key, Err (Some err)] w1)"
  using assms by (simp add: JSONSMembersWithChild_def)

theorem JSONSMembersWithChild_index_error_frame_witness:
  "JSONSMembersWithChild 0 mockUnmarshal mockRedis mockService () ''idx:down'' [7, 9] mockWorld =
     Done (([7, 9], Some ''EOF''),
           \<lparr>store = 1, sent = [SMEMBERS ''idx:down''],
            logged =
              [InfoT ''[cache_RedisService]'' [Str ''Get members child by key '', Str ''idx:down''],
               ErrorT ''[cache_RedisService]''
                 [Str ''Failed to set members at key'', Str ''idx:down'', Err (Some ''EOF'')],
               ErrorT ''[cache_RedisService]''
                 [Str ''Failed to set members at key'', Str ''idx:down'', Err (Some ''EOF'')]]\<rparr>)"
  using JSONSMembersWithChild_index_error_frame
    [of mockRedis mockService "()" "''idx:down''" mockWorld None "''EOF''"
        "\<lparr>store = 1, sent = [SMEMBERS ''idx:down''],
          logged =
            [InfoT ''[cache_RedisService]'' [Str ''Get members child by key '', Str ''idx:down''],
             ErrorT ''[cache_RedisService]''
               [Str ''Failed to set members at key'', Str ''idx:down'', Err (Some ''EOF'')]]\<rparr>"
        0 mockUnmarshal "[7, 9]"]
  by (simp add: mock_defs run_defs)

text \<open>
  C10. Whenever \<^verbatim>\<open>JSONSMembersWithChild\<close> returns, the caller's slice afterwards is the
  slice before, unchanged and in place, followed by the newly decoded elements: the
  decoded values of the raw values up to the first that fails to decode, in their order
  (none when the inner call failed).
\<close>

theorem JSONSMembersWithChild_appends:
  assumes "JSONSMembersWithChild zero Unmarshal R s ctx key v w = Done ((v', err), w')"
  shows "\<exists>result err1 w1.
           SMembersWithChild R s ctx key w = Done ((result, err1), w1)
           \<and> v' = v @ map (\<lambda>item. fst (Unmarshal item zero))
                       (takeWhile (\<lambda>item. snd (Unmarshal item zero) = None)
                          (case (result, err1) of (Some items, None) \<Rightarrow> items | _ \<Rightarrow> []))"
  using assms
  by (auto simp: JSONSMembersWithChild_def decodeItems_appends
           split: outcome.splits prod.splits option.splits)

theorem JSONSMembersWithChild_appends_witness:
  "JSONSMembersWithChild 0 mockUnmarshal mockRedis mockService () ''idx:orders'' [7] mockWorld =
     Done (([7, 1, 3], None),
           \<lparr>store = 4,
            sent = [SMEMBERS ''idx:orders'', GET ''o:1'', GET ''o:2'', GET ''o:3''],
            logged =
              [InfoT ''[cache_RedisService]'' [Str ''Get members child by key '', Str ''idx:orders''],
               ErrorT ''[cache_RedisService]'' [Str ''Failed to get key'', Str ''o:2'', Err None],
               ErrorT ''[cache_RedisService]'' [Str ''Failed to get member'', Str ''o:2'', Err None]]\<rparr>)
   \<and> (\<exists>result err1 w1.
          SMembersWithChild mockRedis mockService () ''idx:orders'' mockWorld =
            Done ((result, err1), w1)
          \<and> [7, 1, 3] =
              [7] @ map (\<lambda>item. fst (mockUnmarshal item 0))
                      (takeWhile (\<lambda>item. snd (mockUnmarshal item 0) = None)
                         (case (result, err1) of (Some items, None) \<Rightarrow> items | _ \<Rightarrow> [])))"
  using JSONSMembersWithChild_appends
    [of 0 mockUnmarshal mockRedis mockService "()" "''idx:orders''" "[7]" mockWorld
        "[7, 1, 3]" None
        "\<lparr>store = 4,
          sent = [SMEMBERS ''idx:orders'', GET ''o:1'', GET ''o:2'', GET ''o:3''],
          logged =
            [InfoT ''[cache_RedisService]'' [Str ''Get members child by key '', Str ''idx:orders''],
             ErrorT ''[cache_RedisService]'' [Str ''Failed to get key'', Str ''o:2'', Err None],
             ErrorT ''[cache_RedisService]'' [Str ''Failed to get member'', Str ''o:2'', Err None]]\<rparr>"]
  by (simp add: mock_defs run_defs)

subsection \<open>Get and JSONGet on an empty value\<close>

text \<open>
  C5. What the code does when the client answers a get with the empty string and no
  error: \<^verbatim>\<open>Get\<close> takes its failure branch (it logs \<open>Failed to get key\<close>) and returns the
  empty string with the client's error, which is nil; \<^verbatim>\<open>JSONGet\<close> likewise returns nil
  and leaves the caller's value as it was. The caller receives no error.
\<close>

theorem Get_empty_value_nil_error:
  assumes "client s = Some cl"
    and "GetR R cl ctx key (store w) = (('''', None), st)"
  shows "(\<exists>w'. Get R s ctx key w = Done (('''', None), w'))
         \<and> (\<exists>w'. JSONGet Unmarshal R s ctx key v w = Done ((v, None), w'))"
  using assms by (simp add: Get_def JSONGet_def clientGet_def)

theorem Get_empty_value_nil_error_witness:
  "(\<exists>w'. Get mockRedis mockService () ''o:2'' mockWorld = Done (('''', None), w'))
   \<and> (\<exists>w'. JSONGet mockUnmarshal mockRedis mockService () ''o:2'' 7 mockWorld =
             Done ((7, None), w'))"
  using Get_empty_value_nil_error
    [of mockService "optionsOf mockConfig" mockRedis "()" "''o:2''" mockWorld 1 mockUnmarshal 7]
  by (simp add: mock_defs)

subsection \<open>NewService and Init\<close>

text \<open>
  C7. For every configuration whose probe timeout is nil, the service that
  \<^verbatim>\<open>NewService\<close> makes carries a probe timeout of 30 seconds (30 000 000 000 ns), and
  \<^verbatim>\<open>Init\<close> on that service probes with exactly that timeout: the one command it sends is
  the ping under 30 seconds, and the error it returns is that ping's.
\<close>

theorem NewService_default_probe_timeout:
  assumes "pingConnectionTTL cfg = None"
  shows "pingConnectionTTL (c (NewService cfg tn)) = Some (30 * Second)
         \<and> 30 * Second = 30000000000
         \<and> (\<exists>s' w'. Init R (NewService cfg tn) w =
                       Done ((s', fst (PingR R (optionsOf cfg) (30 * Second) (store w))), w')
                \<and> sent w' = sent w @ [PING (optionsOf cfg) (30 * Second)])"
  using assms
  by (auto simp: NewService_def Init_def clientPing_def optionsOf_def Let_def Second_def
                 logInfoT_def logErrorT_def split: prod.splits option.splits)

theorem NewService_default_probe_timeout_witness:
  "pingConnectionTTL mockConfig = None
   \<and> pingConnectionTTL (c (NewService mockConfig ''cache'')) = Some 30000000000
   \<and> (\<exists>s' w'. Init mockRedis (NewService mockConfig ''cache'') mockWorld = Done ((s', None), w')
          \<and> sent w' =
              [PING \<lparr>OptAddr = ''localhost:6379'', Username = ''default'', OptPassword = '''',
                      OptDB = 0\<rparr> 30000000000])"
  using NewService_default_probe_timeout [of mockConfig "''cache''" mockRedis mockWorld]
  by (simp add: mockConfig_def mockWorld_def mockRedis_def optionsOf_def Second_def)

text \<open>
  C8. On a service whose probe timeout is set (as \<^verbatim>\<open>NewService\<close> leaves it), \<^verbatim>\<open>Init\<close>
  returns, and the error it returns is the error of the ping against the configured
  store under that timeout: non-nil exactly when the ping fails, and then that very
  error; nil when the ping succeeds. The client is stored in the service either way.
\<close>

theorem Init_error_iff_ping_fails:
  assumes "pingConnectionTTL (c s) = Some ttl"
  shows "\<exists>w'. Init R s w =
           Done ((s\<lparr>client := Some (optionsOf (c s))\<rparr>,
                  fst (PingR R (optionsOf (c s)) ttl (store w))), w')"
  using assms
  by (auto simp: Init_def clientPing_def Let_def split: prod.splits option.splits)

theorem Init_error_iff_ping_fails_witness:
  "(\<exists>w'. Init mockRedis (NewService mockConfig ''cache'') mockWorld =
            Done ((mockService, None), w'))
   \<and> (\<exists>w'. Init mockRedis
               (NewService (mockConfig\<lparr>Addr := ''10.0.0.9:6379''\<rparr>) ''cache'') mockWorld =
            Done (((NewService (mockConfig\<lparr>Addr := ''10.0.0.9:6379''\<rparr>) ''cache'')
                     \<lparr>client := Some (optionsOf (mockConfig\<lparr>Addr := ''10.0.0.9:6379''\<rparr>))\<rparr>,
                   Some ''connection refused''), w'))"
  using Init_error_iff_ping_fails
      [of "NewService mockConfig ''cache''" "30 * Second" mockRedis mockWorld]
    Init_error_iff_ping_fails
      [of "NewService (mockConfig\<lparr>Addr := ''10.0.0.9:6379''\<rparr>) ''cache''" "30 * Second"
          mockRedis mockWorld]
  by (simp add: mock_defs)

end
